theory Spec2Isabelle
  imports Main
begin

section \<open>The chat relay of main.py\<close>

text \<open>
  main.py is a Tornado WebSocket handler in front of Redis. The handler keeps the open
  connections in the class attribute \<open>clients\<close> (a Python set), the names of the users
  that are online in the Redis set \<open>online_clients\<close>, and relays every chat message
  through the Redis channel \<open>chat_channel\<close>: \<open>on_message\<close> publishes, the function
  \<open>redis_listener\<close> receives and writes to every connection of \<open>clients\<close>.

  The embedding passes the state explicitly. An exception is an outcome \<open>Raised e\<close>
  paired with the state as it was when the exception left the function, since Python
  keeps every mutation made before the raise.
\<close>

subsection \<open>Values\<close>

text \<open>
  A handler object is identified by a number. Python's \<open>str\<close> is a \<open>string\<close>; the
  program only tests a string for emptiness, slices the ASCII text of a UUID and
  concatenates, so the bytes of the UTF-8 encoding stand for the text.
\<close>

type_synonym conn = nat

datatype error = KeyError | AttributeError | WebSocketClosedError | JSONDecodeError

datatype outcome = Returned | Raised error

text \<open>
  The values that \<open>json.dumps\<close> takes and \<open>json.loads\<close> returns. A dict keeps the
  order of its keys, as Python's does. Floats are left out: the program builds none.
\<close>

datatype json =
    JNull
  | JBool bool
  | JInt int
  | JStr string
  | JList "json list"
  | JDict "(string \<times> json) list"

text \<open>
  The \<open>json\<close> module is not part of the repository, so it is a parameter of the model:
  \<open>dumps\<close> serialises, \<open>loads\<close> parses and is \<open>None\<close> where \<open>json.loads\<close> raises
  \<open>JSONDecodeError\<close>.
\<close>

record json_module =
  dumps :: "json \<Rightarrow> string"
  loads :: "string \<Rightarrow> json option"

text \<open>A message as \<open>pubsub.listen()\<close> yields it: only the two keys that the listener reads.\<close>

record pubsub_message =
  msg_type :: string
  msg_data :: string

text \<open>
  The state of one server process and of the Redis server it talks to.
  \<^item> \<open>clients\<close>: the set \<open>WebSocketHandler.clients\<close>, as the list of its members in the
    order in which a \<open>for\<close> loop visits them (Python fixes no order for a set; the
    theorems below hold for every list);
  \<^item> \<open>username\<close>: the attribute \<open>self.username\<close> of each handler, \<open>None\<close> while
    \<open>open\<close> has not set it;
  \<^item> \<open>online_clients\<close>: the Redis set of that name, as the list that
    \<open>list(redis_client.smembers(...))\<close> returns;
  \<^item> \<open>chat_channel\<close>: the payloads published to the Redis channel of that name, oldest
    first;
  \<^item> \<open>closed\<close>: the connections whose WebSocket is closed or closing. Tornado's
    \<open>write_message\<close> raises \<open>WebSocketClosedError\<close> for these; which connections they are
    is decided by the clients and the network, not by main.py;
  \<^item> \<open>written\<close>: the log of the frames handed to the sockets, as (recipient, payload),
    oldest first.
\<close>

record state =
  clients :: "conn list"
  username :: "conn \<rightharpoonup> string"
  online_clients :: "string list"
  chat_channel :: "string list"
  closed :: "conn set"
  written :: "(conn \<times> string) list"

subsection \<open>Sets: Python's \<open>set\<close> and the Redis set\<close>

text \<open>\<open>set.add\<close> and \<open>SADD\<close>: adding a member that is there changes nothing.\<close>

definition set_add :: "'a \<Rightarrow> 'a list \<Rightarrow> 'a list" where
  "set_add x xs = (if x \<in> set xs then xs else xs @ [x])"

text \<open>
  \<open>SREM\<close> removes the member if it is there and is silent otherwise. Python's
  \<open>set.remove\<close> raises \<open>KeyError\<close> for a member that is not there; \<open>on_close\<close> below
  makes that test before it removes.
\<close>

definition set_remove :: "'a \<Rightarrow> 'a list \<Rightarrow> 'a list" where
  "set_remove x xs = removeAll x xs"

subsection \<open>The handler\<close>

text \<open>
  \<open>client.write_message(payload)\<close>: Tornado raises \<open>WebSocketClosedError\<close> when the
  connection is closed or closing, and hands the frame to the socket otherwise.
\<close>

definition write_message :: "conn \<Rightarrow> string \<Rightarrow> state \<Rightarrow> outcome \<times> state" where
  "write_message client payload st =
     (if client \<in> closed st then (Raised WebSocketClosedError, st)
      else (Returned, st\<lparr>written := written st @ [(client, payload)]\<rparr>))"

text \<open>
  The loop \<open>for client in clients: client.write_message(payload)\<close> of
  \<open>update_clients_list\<close> and of \<open>redis_listener\<close>. Neither loop has a \<open>try\<close>: the first
  exception leaves the loop.
\<close>

fun write_all :: "conn list \<Rightarrow> string \<Rightarrow> state \<Rightarrow> outcome \<times> state" where
  "write_all [] payload st = (Returned, st)"
| "write_all (client # rest) payload st =
     (case write_message client payload st of
        (Raised e, st') \<Rightarrow> (Raised e, st')
      | (Returned, st') \<Rightarrow> write_all rest payload st')"

definition clients_envelope :: "string list \<Rightarrow> json" where
  "clients_envelope online = JDict [(''type'', JStr ''clients''), (''clients'', JList (map JStr online))]"

definition update_clients_list :: "json_module \<Rightarrow> state \<Rightarrow> outcome \<times> state" where
  "update_clients_list J st =
     (let online = online_clients st;
          data = clients_envelope online
      in write_all (clients st) (dumps J data) st)"

text \<open>The greeting \<open>f"... {self.username}!"\<close>: its Cyrillic text before the name, in UTF-8.\<close>

definition greeting :: string where
  "greeting =
     [CHR 0xD0, CHR 0x94, CHR 0xD0, CHR 0xBE, CHR 0xD0, CHR 0xB1, CHR 0xD1, CHR 0x80,
      CHR 0xD0, CHR 0xBE, CHR 0x20, CHR 0xD0, CHR 0xBF, CHR 0xD0, CHR 0xBE, CHR 0xD0,
      CHR 0xB6, CHR 0xD0, CHR 0xB0, CHR 0xD0, CHR 0xBB, CHR 0xD0, CHR 0xBE, CHR 0xD0,
      CHR 0xB2, CHR 0xD0, CHR 0xB0, CHR 0xD1, CHR 0x82, CHR 0xD1, CHR 0x8C, CHR 0x20,
      CHR 0xD0, CHR 0xB2, CHR 0x20, CHR 0xD1, CHR 0x87, CHR 0xD0, CHR 0xB0, CHR 0xD1,
      CHR 0x82, CHR 0x2C, CHR 0x20]"

definition welcome_envelope :: "string \<Rightarrow> json" where
  "welcome_envelope name =
     JDict [(''type'', JStr ''welcome''), (''message'', JStr (greeting @ name @ ''!''))]"

text \<open>
  Lines 34 to 36 of \<open>open\<close>: \<open>argument\<close> is what \<open>self.get_argument("username", None)\<close>
  returned and \<open>uuid4\<close> is the text \<open>str(uuid.uuid4())\<close>. \<open>not self.username\<close> holds for
  \<open>None\<close> and for the empty string.
\<close>

definition assigned_username :: "string option \<Rightarrow> string \<Rightarrow> string" where
  "assigned_username argument uuid4 =
     (case argument of
        None \<Rightarrow> ''User-'' @ take 8 uuid4
      | Some u \<Rightarrow> if u = [] then ''User-'' @ take 8 uuid4 else u)"

text \<open>\<open>WebSocketHandler.open\<close> (\<open>open\<close> is a keyword of Isabelle, hence the suffix).\<close>

definition open_ws :: "json_module \<Rightarrow> conn \<Rightarrow> string option \<Rightarrow> string \<Rightarrow> state \<Rightarrow> outcome \<times> state" where
  "open_ws J self argument uuid4 st =
     (let name = assigned_username argument uuid4;
          st1 = st\<lparr>username := (username st)(self \<mapsto> name)\<rparr>;
          st2 = st1\<lparr>clients := set_add self (clients st1)\<rparr>;
          st3 = st2\<lparr>online_clients := set_add name (online_clients st2)\<rparr>
      in case update_clients_list J st3 of
           (Raised e, st4) \<Rightarrow> (Raised e, st4)
         | (Returned, st4) \<Rightarrow> write_message self (dumps J (welcome_envelope name)) st4)"

definition message_envelope :: "string \<Rightarrow> string \<Rightarrow> json" where
  "message_envelope sender message =
     JDict [(''type'', JStr ''message''),
            (''data'', JDict [(''sender'', JStr sender), (''message'', JStr message)])]"

text \<open>
  \<open>WebSocketHandler.on_message\<close>. Reading \<open>self.username\<close> on a handler whose \<open>open\<close>
  has not run raises \<open>AttributeError\<close>.
\<close>

definition on_message :: "json_module \<Rightarrow> conn \<Rightarrow> string \<Rightarrow> state \<Rightarrow> outcome \<times> state" where
  "on_message J self message st =
     (case username st self of
        None \<Rightarrow> (Raised AttributeError, st)
      | Some name \<Rightarrow>
          (Returned, st\<lparr>chat_channel := chat_channel st @ [dumps J (message_envelope name message)]\<rparr>))"

text \<open>
  \<open>WebSocketHandler.on_close\<close>: \<open>self.clients.remove(self)\<close> raises \<open>KeyError\<close> when the
  handler is not in the set, before anything else is done.
\<close>

definition on_close :: "json_module \<Rightarrow> conn \<Rightarrow> state \<Rightarrow> outcome \<times> state" where
  "on_close J self st =
     (if self \<notin> set (clients st) then (Raised KeyError, st)
      else
        let st1 = st\<lparr>clients := set_remove self (clients st)\<rparr> in
        case username st1 self of
          None \<Rightarrow> (Raised AttributeError, st1)
        | Some name \<Rightarrow>
            update_clients_list J (st1\<lparr>online_clients := set_remove name (online_clients st1)\<rparr>))"

definition check_origin :: "conn \<Rightarrow> string \<Rightarrow> bool" where
  "check_origin self origin = True"

subsection \<open>The listener\<close>

text \<open>
  \<open>redis_listener\<close>, run over the messages that \<open>pubsub.listen()\<close> yields, oldest
  first. \<open>Returned\<close> is the loop still waiting after the last of them; an exception
  leaves the loop and the messages that follow are never read. \<open>start_redis_listener\<close>
  runs the coroutine once, in a thread of its own, and does not catch or restart it.
\<close>

fun redis_listener :: "json_module \<Rightarrow> pubsub_message list \<Rightarrow> state \<Rightarrow> outcome \<times> state" where
  "redis_listener J [] st = (Returned, st)"
| "redis_listener J (message # later) st =
     (if msg_type message = ''message'' then
        (case loads J (msg_data message) of
           None \<Rightarrow> (Raised JSONDecodeError, st)
         | Some data \<Rightarrow>
             (case write_all (clients st) (dumps J data) st of
                (Raised e, st') \<Rightarrow> (Raised e, st')
              | (Returned, st') \<Rightarrow> redis_listener J later st'))
      else redis_listener J later st)"

definition start_redis_listener :: "json_module \<Rightarrow> pubsub_message list \<Rightarrow> state \<Rightarrow> outcome \<times> state" where
  "start_redis_listener J messages st = redis_listener J messages st"

subsection \<open>A reference \<open>json\<close> module and reference states\<close>

text \<open>
  The theorems below hold for every \<open>json_module\<close>. To run the model on concrete
  input, \<open>ref_json\<close> is a serialiser that writes what \<open>json.dumps\<close> writes with its
  default arguments (the separators \<open>", "\<close> and \<open>": "\<close>, and \<open>ensure_ascii\<close>: the
  short escapes of the quote, the backslash and five control characters, and the escape
  \<open>u\<close> with four hexadecimal digits for every other character outside the printable
  ASCII range, a surrogate pair above the basic plane) and a recursive-descent parser
  of the same notation. A text is held as its UTF-8 bytes, so the serialiser reads the
  code points off the bytes and the parser writes them back. The parser takes fuel, one
  unit per nesting level and per element; the length of the text is enough.
\<close>

text \<open>The code points of a text in UTF-8; a byte that starts no sequence stands for itself.\<close>

definition continuation :: "string \<Rightarrow> nat \<Rightarrow> int" where
  "continuation cs i = (case drop i cs of [] \<Rightarrow> 0 | c # _ \<Rightarrow> (of_char c :: int) mod 64)"

fun code_points :: "string \<Rightarrow> int list" where
  "code_points [] = []"
| "code_points (c # cs) =
     (let b = (of_char c :: int) in
      if 240 \<le> b \<and> b < 248 then
        ((b mod 8) * 262144 + continuation cs 0 * 4096 + continuation cs 1 * 64 + continuation cs 2)
          # code_points (drop 3 cs)
      else if 224 \<le> b \<and> b < 240 then
        ((b mod 16) * 4096 + continuation cs 0 * 64 + continuation cs 1) # code_points (drop 2 cs)
      else if 192 \<le> b \<and> b < 224 then
        ((b mod 32) * 64 + continuation cs 0) # code_points (drop 1 cs)
      else b # code_points cs)"

text \<open>The UTF-8 bytes of a code point.\<close>

definition utf8 :: "int \<Rightarrow> string" where
  "utf8 cp =
     (if cp < 128 then [char_of cp]
      else if cp < 2048 then [char_of (192 + cp div 64), char_of (128 + cp mod 64)]
      else if cp < 65536 then
        [char_of (224 + cp div 4096), char_of (128 + cp div 64 mod 64), char_of (128 + cp mod 64)]
      else
        [char_of (240 + cp div 262144), char_of (128 + cp div 4096 mod 64),
         char_of (128 + cp div 64 mod 64), char_of (128 + cp mod 64)])"

definition hex_digit :: "int \<Rightarrow> char" where
  "hex_digit d = (if d < 10 then char_of (48 + d) else char_of (87 + d))"

text \<open>A backslash, \<open>u\<close> and four hexadecimal digits.\<close>

definition u_escape :: "int \<Rightarrow> string" where
  "u_escape n =
     [CHR 0x5C, CHR ''u'', hex_digit (n div 4096 mod 16), hex_digit (n div 256 mod 16),
      hex_digit (n div 16 mod 16), hex_digit (n mod 16)]"

definition escape_code_point :: "int \<Rightarrow> string" where
  "escape_code_point cp =
     (if cp = 34 then [CHR 0x5C, CHR 0x22]
      else if cp = 92 then [CHR 0x5C, CHR 0x5C]
      else if cp = 8 then [CHR 0x5C, CHR ''b'']
      else if cp = 12 then [CHR 0x5C, CHR ''f'']
      else if cp = 10 then [CHR 0x5C, CHR ''n'']
      else if cp = 13 then [CHR 0x5C, CHR ''r'']
      else if cp = 9 then [CHR 0x5C, CHR ''t'']
      else if 32 \<le> cp \<and> cp < 127 then [char_of cp]
      else if cp < 65536 then u_escape cp
      else u_escape (55296 + (cp - 65536) div 1024) @ u_escape (56320 + (cp - 65536) mod 1024))"

definition quote :: "string \<Rightarrow> string" where
  "quote s = [CHR 0x22] @ concat (map escape_code_point (code_points s)) @ [CHR 0x22]"

fun join :: "string \<Rightarrow> string list \<Rightarrow> string" where
  "join sep [] = []"
| "join sep [x] = x"
| "join sep (x # y # ys) = x @ sep @ join sep (y # ys)"

definition digit_char :: "nat \<Rightarrow> char" where
  "digit_char d = char_of (48 + d)"

function show_nat :: "nat \<Rightarrow> string" where
  "show_nat n = (if n < 10 then [digit_char n] else show_nat (n div 10) @ [digit_char (n mod 10)])"
  by pat_completeness auto
termination
  by (relation "measure id") auto

declare show_nat.simps [simp del]

fun ref_dumps :: "json \<Rightarrow> string" where
  "ref_dumps JNull = ''null''"
| "ref_dumps (JBool b) = (if b then ''true'' else ''false'')"
| "ref_dumps (JInt i) = (if i < 0 then ''-'' @ show_nat (nat (- i)) else show_nat (nat i))"
| "ref_dumps (JStr s) = quote s"
| "ref_dumps (JList vs) = ''['' @ join '', '' (map ref_dumps vs) @ '']''"
| "ref_dumps (JDict kvs) = ''{'' @ join '', '' (map (\<lambda>(k, v). quote k @ '': '' @ ref_dumps v) kvs) @ ''}''"

fun skip_ws :: "string \<Rightarrow> string" where
  "skip_ws [] = []"
| "skip_ws (c # cs) =
     (if c = CHR 0x20 \<or> c = CHR 0x0A \<or> c = CHR 0x0D \<or> c = CHR 0x09 then skip_ws cs else c # cs)"

definition hex_val :: "char \<Rightarrow> int option" where
  "hex_val c =
     (let b = (of_char c :: int) in
      if 48 \<le> b \<and> b < 58 then Some (b - 48)
      else if 97 \<le> b \<and> b < 103 then Some (b - 87)
      else if 65 \<le> b \<and> b < 71 then Some (b - 55)
      else None)"

fun read_hex4 :: "string \<Rightarrow> int option" where
  "read_hex4 (a # b # c # d # rest) =
     (case (hex_val a, hex_val b, hex_val c, hex_val d) of
        (Some w, Some x, Some y, Some z) \<Rightarrow> Some (((w * 16 + x) * 16 + y) * 16 + z)
      | _ \<Rightarrow> None)"
| "read_hex4 _ = None"

text \<open>The character that a short escape stands for.\<close>

definition unescape :: "char \<Rightarrow> char option" where
  "unescape d =
     (if d = CHR 0x22 \<or> d = CHR 0x5C \<or> d = CHR ''/'' then Some d
      else if d = CHR ''b'' then Some (CHR 0x08)
      else if d = CHR ''f'' then Some (CHR 0x0C)
      else if d = CHR ''n'' then Some (CHR 0x0A)
      else if d = CHR ''r'' then Some (CHR 0x0D)
      else if d = CHR ''t'' then Some (CHR 0x09)
      else None)"

text \<open>
  The low half of a surrogate pair, when the text goes on with one: a backslash, \<open>u\<close>
  and four digits from DC00 to DFFF.
\<close>

definition low_surrogate :: "string \<Rightarrow> int option" where
  "low_surrogate cs =
     (if take 2 cs = [CHR 0x5C, CHR ''u''] then
        (case read_hex4 (drop 2 cs) of
           None \<Rightarrow> None
         | Some v \<Rightarrow> if 56320 \<le> v \<and> v < 57344 then Some v else None)
      else None)"

text \<open>
  The text of a string after its opening quote, and what follows the closing quote. A
  control character inside a string is refused, as \<open>json.loads\<close> refuses it.
\<close>

fun scan_string :: "string \<Rightarrow> (string \<times> string) option" where
  "scan_string [] = None"
| "scan_string (c # cs) =
     (if c = CHR 0x22 then Some ([], cs)
      else if (of_char c :: int) < 32 then None
      else if c \<noteq> CHR 0x5C then map_option (\<lambda>(s, r). (c # s, r)) (scan_string cs)
      else
        (case cs of
           [] \<Rightarrow> None
         | d # ds \<Rightarrow>
             if d = CHR ''u'' then
               (case read_hex4 ds of
                  None \<Rightarrow> None
                | Some u \<Rightarrow>
                    (case (if 55296 \<le> u \<and> u < 56320 then low_surrogate (drop 4 ds) else None) of
                       Some v \<Rightarrow>
                         map_option (\<lambda>(s, r). (utf8 (65536 + (u - 55296) * 1024 + (v - 56320)) @ s, r))
                           (scan_string (drop 10 ds))
                     | None \<Rightarrow> map_option (\<lambda>(s, r). (utf8 u @ s, r)) (scan_string (drop 4 ds))))
             else
               (case unescape d of
                  None \<Rightarrow> None
                | Some e \<Rightarrow> map_option (\<lambda>(s, r). (e # s, r)) (scan_string ds))))"

definition is_digit :: "char \<Rightarrow> bool" where
  "is_digit c = (48 \<le> (of_char c :: nat) \<and> (of_char c :: nat) \<le> 57)"

definition read_nat :: "string \<Rightarrow> nat" where
  "read_nat ds = foldl (\<lambda>a d. 10 * a + ((of_char d :: nat) - 48)) 0 ds"

fun parse_value :: "nat \<Rightarrow> string \<Rightarrow> (json \<times> string) option"
and parse_items :: "nat \<Rightarrow> string \<Rightarrow> (json list \<times> string) option"
and parse_members :: "nat \<Rightarrow> string \<Rightarrow> ((string \<times> json) list \<times> string) option" where
  "parse_value 0 s = None"
| "parse_value (Suc n) s =
     (case skip_ws s of
        [] \<Rightarrow> None
      | c # cs \<Rightarrow>
          if c = CHR 0x22 then map_option (\<lambda>(x, r). (JStr x, r)) (scan_string cs)
          else if c = CHR ''['' then
            (case skip_ws cs of
               [] \<Rightarrow> None
             | d # ds \<Rightarrow> if d = CHR '']'' then Some (JList [], ds)
                        else map_option (\<lambda>(vs, r). (JList vs, r)) (parse_items n cs))
          else if c = CHR ''{'' then
            (case skip_ws cs of
               [] \<Rightarrow> None
             | d # ds \<Rightarrow> if d = CHR ''}'' then Some (JDict [], ds)
                        else map_option (\<lambda>(kvs, r). (JDict kvs, r)) (parse_members n cs))
          else if take 4 (c # cs) = ''null'' then Some (JNull, drop 4 (c # cs))
          else if take 4 (c # cs) = ''true'' then Some (JBool True, drop 4 (c # cs))
          else if take 5 (c # cs) = ''false'' then Some (JBool False, drop 5 (c # cs))
          else if c = CHR ''-'' \<and> takeWhile is_digit cs \<noteq> [] then
            Some (JInt (- int (read_nat (takeWhile is_digit cs))), dropWhile is_digit cs)
          else if is_digit c then
            Some (JInt (int (read_nat (takeWhile is_digit (c # cs)))), dropWhile is_digit (c # cs))
          else None)"
| "parse_items 0 s = None"
| "parse_items (Suc n) s =
     (case parse_value n s of
        None \<Rightarrow> None
      | Some (v, r) \<Rightarrow>
          (case skip_ws r of
             [] \<Rightarrow> None
           | c # cs \<Rightarrow>
               if c = CHR '','' then map_option (\<lambda>(vs, r'). (v # vs, r')) (parse_items n cs)
               else if c = CHR '']'' then Some ([v], cs)
               else None))"
| "parse_members 0 s = None"
| "parse_members (Suc n) s =
     (case skip_ws s of
        [] \<Rightarrow> None
      | q # s1 \<Rightarrow>
          if q \<noteq> CHR 0x22 then None
          else
            (case scan_string s1 of
               None \<Rightarrow> None
             | Some (k, s2) \<Rightarrow>
                 (case skip_ws s2 of
                    [] \<Rightarrow> None
                  | c # s3 \<Rightarrow>
                      if c \<noteq> CHR '':'' then None
                      else
                        (case parse_value n s3 of
                           None \<Rightarrow> None
                         | Some (v, s4) \<Rightarrow>
                             (case skip_ws s4 of
                                [] \<Rightarrow> None
                              | d # s5 \<Rightarrow>
                                  if d = CHR '','' then
                                    map_option (\<lambda>(kvs, r). ((k, v) # kvs, r)) (parse_members n s5)
                                  else if d = CHR ''}'' then Some ([(k, v)], s5)
                                  else None)))))"

definition ref_loads :: "string \<Rightarrow> json option" where
  "ref_loads s =
     (case parse_value (Suc (length s)) s of
        None \<Rightarrow> None
      | Some (v, r) \<Rightarrow> if skip_ws r = [] then Some v else None)"

definition ref_json :: json_module where
  "ref_json = \<lparr>dumps = ref_dumps, loads = ref_loads\<rparr>"


definition st_alice_bob :: state where
  "st_alice_bob =
     \<lparr>clients = [1, 2], username = [1 \<mapsto> ''alice'', 2 \<mapsto> ''bob''],
      online_clients = [''alice'', ''bob''], chat_channel = [], closed = {}, written = []\<rparr>"

text \<open>Two connections that registered the same name.\<close>

definition st_two_alice :: state where
  "st_two_alice =
     \<lparr>clients = [1, 2], username = [1 \<mapsto> ''alice'', 2 \<mapsto> ''alice''],
      online_clients = [''alice''], chat_channel = [], closed = {}, written = []\<rparr>"

text \<open>
  Alice's socket is closing while her handler is still registered; the loop over
  \<open>clients\<close> visits her first in one state and last in the other.
\<close>

definition st_alice_closing :: state where
  "st_alice_closing = st_alice_bob\<lparr>closed := {1}\<rparr>"

definition st_alice_closing_last :: state where
  "st_alice_closing_last = st_alice_bob\<lparr>clients := [2, 1], closed := {1}\<rparr>"

text \<open>Alice, bob and carol are connected, and bob's socket is closing.\<close>

definition st_bob_closing :: state where
  "st_bob_closing =
     \<lparr>clients = [1, 2, 3], username = [1 \<mapsto> ''alice'', 2 \<mapsto> ''bob'', 3 \<mapsto> ''carol''],
      online_clients = [''alice'', ''bob'', ''carol''], chat_channel = [], closed = {2},
      written = []\<rparr>"

text \<open>Payloads as \<open>ref_json\<close> writes them.\<close>

definition hello_payload :: string where
  "hello_payload = ''{\"type\": \"message\", \"data\": {\"sender\": \"alice\", \"message\": \"hello\"}}''"

definition bye_payload :: string where
  "bye_payload = ''{\"type\": \"message\", \"data\": {\"sender\": \"bob\", \"message\": \"bye\"}}''"

definition roster_payload :: string where
  "roster_payload = ''{\"type\": \"clients\", \"clients\": [\"alice\", \"bob\", \"carol\"]}''"

text \<open>
  The greeting envelope for carol. \<open>json.dumps\<close> writes the Cyrillic greeting in \<open>u\<close>
  escapes; \<open>bs_u\<close> puts the backslash and the \<open>u\<close> before the four digits.
\<close>

definition bs_u :: "string \<Rightarrow> string" where
  "bs_u hex = CHR 0x5C # CHR ''u'' # hex"

definition carol_greeting_payload :: string where
  "carol_greeting_payload =
     ''{\"type\": \"welcome\", \"message\": \"'' @
       bs_u ''0414'' @ bs_u ''043e'' @ bs_u ''0431'' @ bs_u ''0440'' @ bs_u ''043e'' @
       '' '' @ bs_u ''043f'' @ bs_u ''043e'' @ bs_u ''0436'' @ bs_u ''0430'' @
       bs_u ''043b'' @ bs_u ''043e'' @ bs_u ''0432'' @ bs_u ''0430'' @ bs_u ''0442'' @
       bs_u ''044c'' @ '' '' @ bs_u ''0432'' @ '' '' @ bs_u ''0447'' @ bs_u ''0430'' @
       bs_u ''0442'' @ '', '' @
       ''carol!\"}''"

section \<open>Properties\<close>

subsection \<open>The write loop and the frame of each function\<close>

text \<open>
  The loop writes to the clients it visits up to the first one whose socket is closed,
  and raises exactly when there is one. It changes nothing but the log of frames.
\<close>

lemma write_all_takeWhile:
  "write_all cs payload st =
     (if set cs \<inter> closed st = {} then Returned else Raised WebSocketClosedError,
      st\<lparr>written := written st @ map (\<lambda>client. (client, payload)) (takeWhile (\<lambda>client. client \<notin> closed st) cs)\<rparr>)"
proof (induction cs arbitrary: st)
  case Nil
  then show ?case by simp
next
  case (Cons c cs)
  show ?case
  proof (cases "c \<in> closed st")
    case True
    then show ?thesis by (simp add: write_message_def)
  next
    case False
    then show ?thesis by (simp add: write_message_def Cons.IH)
  qed
qed

lemma write_all_ok:
  assumes "set cs \<inter> closed st = {}"
  shows "write_all cs payload st =
           (Returned, st\<lparr>written := written st @ map (\<lambda>client. (client, payload)) cs\<rparr>)"
proof -
  have tw: "takeWhile (\<lambda>client. client \<notin> closed st) cs = cs"
    using assms by (intro takeWhile_eq_all_conv[THEN iffD2]) auto
  show ?thesis unfolding write_all_takeWhile tw using assms by simp
qed

lemma write_all_fails:
  assumes "set before \<inter> closed st = {}" and "failing \<in> closed st"
  shows "write_all (before @ failing # remaining) payload st =
           (Raised WebSocketClosedError,
            st\<lparr>written := written st @ map (\<lambda>client. (client, payload)) before\<rparr>)"
proof -
  have "takeWhile (\<lambda>client. client \<notin> closed st) (before @ failing # remaining) = before"
    using assms by (subst takeWhile_append2) auto
  moreover have "set (before @ failing # remaining) \<inter> closed st \<noteq> {}"
    using assms(2) by auto
  ultimately show ?thesis by (simp only: write_all_takeWhile if_False if_not_P)
qed

lemma write_all_frame:
  "clients (snd (write_all cs payload st)) = clients st"
  "username (snd (write_all cs payload st)) = username st"
  "online_clients (snd (write_all cs payload st)) = online_clients st"
  "chat_channel (snd (write_all cs payload st)) = chat_channel st"
  "closed (snd (write_all cs payload st)) = closed st"
  by (simp_all add: write_all_takeWhile)

lemma update_clients_list_frame:
  "clients (snd (update_clients_list J st)) = clients st"
  "username (snd (update_clients_list J st)) = username st"
  "online_clients (snd (update_clients_list J st)) = online_clients st"
  "chat_channel (snd (update_clients_list J st)) = chat_channel st"
  "closed (snd (update_clients_list J st)) = closed st"
  by (simp_all add: update_clients_list_def write_all_frame)

lemma write_message_frame:
  "clients (snd (write_message c payload st)) = clients st"
  "username (snd (write_message c payload st)) = username st"
  "online_clients (snd (write_message c payload st)) = online_clients st"
  "chat_channel (snd (write_message c payload st)) = chat_channel st"
  "closed (snd (write_message c payload st)) = closed st"
  by (simp_all add: write_message_def)

lemma redis_listener_append:
  "redis_listener J (earlier @ later) st =
     (case redis_listener J earlier st of
        (Raised e, st') \<Rightarrow> (Raised e, st')
      | (Returned, st') \<Rightarrow> redis_listener J later st')"
  by (induction J earlier st rule: redis_listener.induct)
     (auto split: option.splits prod.splits outcome.splits)

lemma on_close_clients:
  "self \<notin> set (clients (snd (on_close J self st)))"
  by (simp add: on_close_def set_remove_def update_clients_list_frame Let_def
      split: option.splits)

lemma set_set_add: "set (set_add x xs) = insert x (set xs)"
  by (auto simp: set_add_def)

lemma open_ws_ok:
  assumes "set (clients st) \<inter> closed st = {}" and "self \<notin> closed st"
  shows "open_ws J self argument uuid st =
           (Returned,
            st\<lparr>username := (username st)(self \<mapsto> assigned_username argument uuid),
               clients := set_add self (clients st),
               online_clients := set_add (assigned_username argument uuid) (online_clients st),
               written := written st @
                 map (\<lambda>client. (client, dumps J (clients_envelope
                        (set_add (assigned_username argument uuid) (online_clients st)))))
                     (set_add self (clients st)) @
                 [(self, dumps J (welcome_envelope (assigned_username argument uuid)))]\<rparr>)"
proof -
  have "set (set_add self (clients st)) \<inter> closed st = {}"
    using assms by (simp add: set_set_add)
  then show ?thesis
    using assms(2)
    by (simp add: open_ws_def Let_def update_clients_list_def write_all_ok write_message_def)
qed

lemma takeWhile_open:
  assumes "set cs \<inter> closed st = {}"
  shows "takeWhile (\<lambda>client. client \<notin> closed st) cs = cs"
  using assms by (intro takeWhile_eq_all_conv[THEN iffD2]) auto

lemma open_ws_fails:
  assumes "set (set_add self (clients st)) \<inter> closed st \<noteq> {}"
  shows "open_ws J self argument uuid st =
           (Raised WebSocketClosedError,
            st\<lparr>username := (username st)(self \<mapsto> assigned_username argument uuid),
               clients := set_add self (clients st),
               online_clients := set_add (assigned_username argument uuid) (online_clients st),
               written := written st @
                 map (\<lambda>client. (client, dumps J (clients_envelope
                        (set_add (assigned_username argument uuid) (online_clients st)))))
                     (takeWhile (\<lambda>client. client \<notin> closed st) (set_add self (clients st)))\<rparr>)"
  using assms
  by (simp add: open_ws_def Let_def update_clients_list_def write_all_takeWhile)


lemma open_ws_online_clients:
  "online_clients (snd (open_ws J self argument uuid st)) =
     set_add (assigned_username argument uuid) (online_clients st)"
proof (cases "set (set_add self (clients st)) \<inter> closed st = {}")
  case True
  then have ok: "set (clients st) \<inter> closed st = {}" "self \<notin> closed st"
    by (auto simp: set_set_add)
  show ?thesis
    by (simp add: open_ws_ok[OF ok])
next
  case False
  then show ?thesis
    by (simp add: open_ws_fails[OF False])
qed

lemma open_ws_username:
  "username (snd (open_ws J self argument uuid st)) self = Some (assigned_username argument uuid)"
proof -
  define name where "name = assigned_username argument uuid"
  define st3 where
    "st3 = st\<lparr>username := (username st)(self \<mapsto> name),
              clients := set_add self (clients st),
              online_clients := set_add name (online_clients st)\<rparr>"
  obtain r st4 where upd: "update_clients_list J st3 = (r, st4)"
    by (cases "update_clients_list J st3") auto
  have "username st4 = username st3"
    using update_clients_list_frame(2)[of J st3] by (simp add: upd)
  then have u4: "username st4 self = Some name"
    by (simp add: st3_def)
  have "open_ws J self argument uuid st =
          (case r of Raised e \<Rightarrow> (Raised e, st4)
           | Returned \<Rightarrow> write_message self (dumps J (welcome_envelope name)) st4)"
    using upd unfolding name_def st3_def by (simp add: open_ws_def Let_def)
  then show ?thesis
    using u4 by (cases r) (simp_all add: write_message_frame name_def)
qed

lemma ref_roster:
  "dumps ref_json (clients_envelope [''alice'', ''bob'', ''carol'']) = roster_payload"
  unfolding roster_payload_def by code_simp

lemma ref_greeting:
  "dumps ref_json (JDict [(''type'', JStr ''welcome''), (''message'', JStr (greeting @ ''carol'' @ ''!''))]) =
     carol_greeting_payload"
  unfolding carol_greeting_payload_def by code_simp

lemma ref_payloads_differ: "roster_payload \<noteq> carol_greeting_payload"
  by (simp add: roster_payload_def carol_greeting_payload_def)


subsection \<open>Delivery of chat messages\<close>




text \<open>
  C6. For every text payload received on a connection whose \<open>open\<close> has run,
  \<open>on_message\<close> returns normally, appends exactly one payload to the channel, the
  serialised envelope \<open>{"type": "message", "data": {"sender": name, "message": text}}\<close>,
  and writes to no connection.
\<close>

theorem on_message_publishes_envelope:
  assumes "username st self = Some name"
  shows "on_message J self message st =
           (Returned,
            st\<lparr>chat_channel := chat_channel st @
                 [dumps J (JDict [(''type'', JStr ''message''),
                                  (''data'', JDict [(''sender'', JStr name), (''message'', JStr message)])])]\<rparr>)
       \<and> written (snd (on_message J self message st)) = written st"
  using assms by (simp add: on_message_def message_envelope_def)

text \<open>Alice sends \<open>hello\<close>: one payload on the channel, nothing written to a socket.\<close>

theorem on_message_publishes_envelope_witness:
  "username st_alice_bob 1 = Some ''alice''
   \<and> fst (on_message ref_json 1 ''hello'' st_alice_bob) = Returned
   \<and> chat_channel (snd (on_message ref_json 1 ''hello'' st_alice_bob)) = [hello_payload]
   \<and> written (snd (on_message ref_json 1 ''hello'' st_alice_bob)) = []"
proof -
  have h: "username st_alice_bob 1 = Some ''alice''"
    by (simp add: st_alice_bob_def)
  have d: "dumps ref_json (JDict [(''type'', JStr ''message''),
             (''data'', JDict [(''sender'', JStr ''alice''), (''message'', JStr ''hello'')])]) =
           hello_payload"
    unfolding hello_payload_def by code_simp
  have c: "chat_channel st_alice_bob = []" "written st_alice_bob = []"
    by (simp_all add: st_alice_bob_def)
  show ?thesis
    using on_message_publishes_envelope[where J = ref_json and message = "''hello''", OF h] h
    by (simp add: d c)
qed

subsection \<open>Closing a connection\<close>

text \<open>
  C2, as the code has it. A second \<open>on_close\<close> on the same handler raises \<open>KeyError\<close>
  at \<open>self.clients.remove(self)\<close>, before anything else runs: it leaves the registry,
  the Redis set and the log of frames exactly as the first call left them, whatever the
  outcome of the first call was.
\<close>

theorem second_close_raises_key_error:
  "on_close J self (snd (on_close J self st)) = (Raised KeyError, snd (on_close J self st))"
proof -
  have "self \<notin> set (clients (snd (on_close J self st)))"
    by (rule on_close_clients)
  then show ?thesis
    by (subst on_close_def) simp
qed

text \<open>
  So a second call is not silent: alice's first close returns, her second raises
  \<open>KeyError\<close>.
\<close>

theorem second_close_throws_counterexample:
  "fst (on_close ref_json 1 st_alice_bob) = Returned
   \<and> fst (on_close ref_json 1 (snd (on_close ref_json 1 st_alice_bob))) = Raised KeyError"
  by (simp add: on_close_def st_alice_bob_def set_remove_def update_clients_list_def
      write_message_def Let_def)

text \<open>
  C4. \<open>on_close\<close> removes the name of the closing connection from the Redis set without
  looking at the other connections: after a registered connection closes, its name is no
  longer a member of \<open>online_clients\<close>, and every other registered connection that
  carries the same name is still registered under that name.
\<close>

theorem close_removes_username_unconditionally:
  assumes "self \<in> set (clients st)" and "username st self = Some name"
  shows "name \<notin> set (online_clients (snd (on_close J self st)))
       \<and> (\<forall>other. other \<noteq> self \<and> other \<in> set (clients st) \<and> username st other = Some name
            \<longrightarrow> other \<in> set (clients (snd (on_close J self st)))
              \<and> username (snd (on_close J self st)) other = Some name)"
  using assms
  by (simp add: on_close_def set_remove_def update_clients_list_frame Let_def)

text \<open>Two connections named alice: the first closes, the second stays, the name is gone.\<close>

theorem close_removes_username_unconditionally_witness:
  "1 \<in> set (clients st_two_alice) \<and> username st_two_alice 1 = Some ''alice''
   \<and> 2 \<noteq> (1::nat) \<and> 2 \<in> set (clients st_two_alice) \<and> username st_two_alice 2 = Some ''alice''
   \<and> ''alice'' \<notin> set (online_clients (snd (on_close ref_json 1 st_two_alice)))
   \<and> 2 \<in> set (clients (snd (on_close ref_json 1 st_two_alice)))
   \<and> username (snd (on_close ref_json 1 st_two_alice)) 2 = Some ''alice''"
proof -
  have h1: "1 \<in> set (clients st_two_alice)" and h2: "username st_two_alice 1 = Some ''alice''"
    and h3: "2 \<in> set (clients st_two_alice)" and h4: "username st_two_alice 2 = Some ''alice''"
    by (simp_all add: st_two_alice_def)
  show ?thesis
    using close_removes_username_unconditionally[where J = ref_json, OF h1 h2] h1 h2 h3 h4
    by auto
qed

subsection \<open>A send that fails\<close>

text \<open>
  C3, as the code has it. When the loop over \<open>clients\<close> reaches a connection whose
  socket is closed, \<open>WebSocketClosedError\<close> leaves the loop: the connections visited
  before it have been written the payload, the connections after it are written
  nothing. This holds for the roster broadcast, and for the listener, where the exception
  also ends \<open>redis_listener\<close>: the messages that follow are never read.
\<close>

theorem failed_send_aborts_broadcast:
  assumes "clients st = before @ failing # remaining"
      and "set before \<inter> closed st = {}"
      and "failing \<in> closed st"
  shows "update_clients_list J st =
           (Raised WebSocketClosedError,
            st\<lparr>written := written st @
                 map (\<lambda>client. (client, dumps J (clients_envelope (online_clients st)))) before\<rparr>)
       \<and> (\<forall>message data later.
             msg_type message = ''message'' \<and> loads J (msg_data message) = Some data \<longrightarrow>
             redis_listener J (message # later) st =
               (Raised WebSocketClosedError,
                st\<lparr>written := written st @ map (\<lambda>client. (client, dumps J data)) before\<rparr>))"
  using assms by (simp add: update_clients_list_def write_all_fails)

text \<open>
  Bob's socket is closing and the loop visits alice, bob, carol: alice is written the
  payload, carol nothing, and the listener does not reach the second message.
\<close>

theorem failed_send_aborts_broadcast_witness:
  "clients st_bob_closing = [1] @ 2 # [3]
   \<and> set [1] \<inter> closed st_bob_closing = {}
   \<and> 2 \<in> closed st_bob_closing
   \<and> msg_type \<lparr>msg_type = ''message'', msg_data = hello_payload\<rparr> = ''message''
   \<and> loads ref_json (msg_data \<lparr>msg_type = ''message'', msg_data = hello_payload\<rparr>) =
       Some (message_envelope ''alice'' ''hello'')
   \<and> fst (update_clients_list ref_json st_bob_closing) = Raised WebSocketClosedError
   \<and> written (snd (update_clients_list ref_json st_bob_closing)) = [(1, roster_payload)]
   \<and> fst (redis_listener ref_json
        [\<lparr>msg_type = ''message'', msg_data = hello_payload\<rparr>,
         \<lparr>msg_type = ''message'', msg_data = bye_payload\<rparr>] st_bob_closing) =
       Raised WebSocketClosedError
   \<and> written (snd (redis_listener ref_json
        [\<lparr>msg_type = ''message'', msg_data = hello_payload\<rparr>,
         \<lparr>msg_type = ''message'', msg_data = bye_payload\<rparr>] st_bob_closing)) =
       [(1, hello_payload)]"
proof -
  have h1: "clients st_bob_closing = [1] @ 2 # [3]"
    and h2: "set [1] \<inter> closed st_bob_closing = {}"
    and h3: "2 \<in> closed st_bob_closing"
    by (simp_all add: st_bob_closing_def)
  have h4: "msg_type \<lparr>msg_type = ''message'', msg_data = hello_payload\<rparr> = ''message''"
    by simp
  have h5: "loads ref_json (msg_data \<lparr>msg_type = ''message'', msg_data = hello_payload\<rparr>) =
              Some (message_envelope ''alice'' ''hello'')"
    unfolding hello_payload_def by code_simp
  have d: "dumps ref_json (message_envelope ''alice'' ''hello'') = hello_payload"
    unfolding hello_payload_def by code_simp
  have c: "online_clients st_bob_closing = [''alice'', ''bob'', ''carol'']"
    "written st_bob_closing = []"
    by (simp_all add: st_bob_closing_def)
  note t = failed_send_aborts_broadcast[where J = ref_json, OF h1 h2 h3]
  from t have a: "update_clients_list ref_json st_bob_closing =
      (Raised WebSocketClosedError, st_bob_closing\<lparr>written := [(1, roster_payload)]\<rparr>)"
    by (simp add: c ref_roster)
  from t h4 h5 have b: "redis_listener ref_json
        [\<lparr>msg_type = ''message'', msg_data = hello_payload\<rparr>,
         \<lparr>msg_type = ''message'', msg_data = bye_payload\<rparr>] st_bob_closing =
      (Raised WebSocketClosedError, st_bob_closing\<lparr>written := [(1, hello_payload)]\<rparr>)"
    by (simp add: c d del: redis_listener.simps)
  show ?thesis
    using h1 h2 h3 h4 h5 by (simp add: a b del: redis_listener.simps)
qed

text \<open>
  So a failed send is not isolated. With alice visited first, bob, whose socket is
  fine, gets no roster. With alice visited last, bob gets the first chat message, the
  listener ends with the exception and the second message never reaches him.
\<close>

theorem send_failure_not_isolated_counterexample:
  "2 \<in> set (clients st_alice_closing) \<and> 2 \<notin> closed st_alice_closing
   \<and> fst (update_clients_list ref_json st_alice_closing) = Raised WebSocketClosedError
   \<and> written (snd (update_clients_list ref_json st_alice_closing)) = []
   \<and> fst (redis_listener ref_json
         [\<lparr>msg_type = ''message'', msg_data = hello_payload\<rparr>,
          \<lparr>msg_type = ''message'', msg_data = bye_payload\<rparr>] st_alice_closing_last)
       = Raised WebSocketClosedError
   \<and> written (snd (redis_listener ref_json
         [\<lparr>msg_type = ''message'', msg_data = hello_payload\<rparr>,
          \<lparr>msg_type = ''message'', msg_data = bye_payload\<rparr>] st_alice_closing_last))
       = [(2, hello_payload)]"
proof -
  have l: "loads ref_json hello_payload = Some (message_envelope ''alice'' ''hello'')"
    unfolding hello_payload_def by code_simp
  have d: "dumps ref_json (message_envelope ''alice'' ''hello'') = hello_payload"
    unfolding hello_payload_def by code_simp
  show ?thesis
    by (simp add: l d update_clients_list_def st_alice_closing_def st_alice_closing_last_def
        st_alice_bob_def write_message_def)
qed

subsection \<open>Opening a connection\<close>

text \<open>
  C7. A connection opened with no \<open>username\<close> argument, or with an empty one, is assigned
  \<open>User-\<close> followed by the first 8 characters of the UUID text, a non-empty name (the
  text of a UUID has 36 characters; 8 are enough here). A connection opened with a
  non-empty argument is assigned that argument as it is.
\<close>

theorem open_assigns_username:
  "(argument = None \<or> argument = Some [] \<longrightarrow> 8 \<le> length uuid \<longrightarrow>
      username (snd (open_ws J self argument uuid st)) self = Some (''User-'' @ take 8 uuid)
      \<and> length (take 8 uuid) = 8
      \<and> ''User-'' @ take 8 uuid \<noteq> [])
   \<and> (\<forall>requested. argument = Some requested \<and> requested \<noteq> [] \<longrightarrow>
        username (snd (open_ws J self argument uuid st)) self = Some requested)"
  by (auto simp: open_ws_username assigned_username_def)

text \<open>Connection 3 opens without a name, and with the name carol.\<close>

theorem open_assigns_username_witness:
  "(None = (None :: string option) \<or> None = Some [])
   \<and> 8 \<le> length ''1b9d6bcd-bbfd-4b2d-9b5d-ab8dfbbd4bed''
   \<and> username (snd (open_ws ref_json 3 None ''1b9d6bcd-bbfd-4b2d-9b5d-ab8dfbbd4bed'' st_alice_bob)) 3 =
       Some ''User-1b9d6bcd''
   \<and> Some ''carol'' = Some ''carol'' \<and> ''carol'' \<noteq> []
   \<and> username (snd (open_ws ref_json 3 (Some ''carol'') ''1b9d6bcd-bbfd-4b2d-9b5d-ab8dfbbd4bed'' st_alice_bob)) 3 =
       Some ''carol''"
  using open_assigns_username[where argument = None and uuid = "''1b9d6bcd-bbfd-4b2d-9b5d-ab8dfbbd4bed''"
          and J = ref_json and self = 3 and st = st_alice_bob]
        open_assigns_username[where argument = "Some ''carol''" and uuid = "''1b9d6bcd-bbfd-4b2d-9b5d-ab8dfbbd4bed''"
          and J = ref_json and self = 3 and st = st_alice_bob]
  by simp

text \<open>
  C5, as the code has it. On every \<open>open\<close> the new name is added to the Redis set and
  the new connection to the registry before the roster is built, so the roster lists
  the new name; it is written to the connections of the registry, the new one among
  them, in the order of the loop, up to the first one whose socket is closed. So when
  no socket of the registry is closed, the roster is written to every registered
  connection, the new one included.
\<close>

theorem open_broadcasts_updated_roster:
  "let name = assigned_username argument uuid;
       after = snd (open_ws J self argument uuid st);
       roster = dumps J (clients_envelope (online_clients after));
       reached = takeWhile (\<lambda>client. client \<notin> closed st) (clients after)
   in online_clients after = set_add name (online_clients st)
    \<and> name \<in> set (online_clients after)
    \<and> clients after = set_add self (clients st)
    \<and> self \<in> set (clients after)
    \<and> take (length reached) (drop (length (written st)) (written after)) =
        map (\<lambda>client. (client, roster)) reached
    \<and> (set (clients after) \<inter> closed st = {} \<longrightarrow>
         reached = clients after
         \<and> (\<forall>client \<in> set (clients after). (client, roster) \<in> set (written after)))"
proof (cases "set (set_add self (clients st)) \<inter> closed st = {}")
  case True
  then have ok: "set (clients st) \<inter> closed st = {}" "self \<notin> closed st"
    by (auto simp: set_set_add)
  show ?thesis
    using True
    by (simp add: open_ws_ok[OF ok] Let_def set_set_add image_iff takeWhile_open)
next
  case False
  then show ?thesis
    by (auto simp: open_ws_fails[OF False] Let_def set_set_add)
qed

text \<open>
  Carol opens connection 3 next to alice and bob: all three are written the roster of
  three. When alice's socket is closing and the loop visits bob, alice, carol, only bob
  is written the roster.
\<close>

theorem open_broadcasts_updated_roster_witness:
  "set (clients (snd (open_ws ref_json 3 (Some ''carol'') [] st_alice_bob))) \<inter> closed st_alice_bob = {}
   \<and> online_clients (snd (open_ws ref_json 3 (Some ''carol'') [] st_alice_bob)) =
       [''alice'', ''bob'', ''carol'']
   \<and> clients (snd (open_ws ref_json 3 (Some ''carol'') [] st_alice_bob)) = [1, 2, 3]
   \<and> take 3 (written (snd (open_ws ref_json 3 (Some ''carol'') [] st_alice_bob))) =
       [(1, roster_payload), (2, roster_payload), (3, roster_payload)]
   \<and> (3, roster_payload) \<in> set (written (snd (open_ws ref_json 3 (Some ''carol'') [] st_alice_bob)))
   \<and> clients (snd (open_ws ref_json 3 (Some ''carol'') [] st_alice_closing_last)) = [2, 1, 3]
   \<and> take 1 (written (snd (open_ws ref_json 3 (Some ''carol'') [] st_alice_closing_last))) =
       [(2, roster_payload)]"
proof -
  let ?after = "snd (open_ws ref_json 3 (Some ''carol'') [] st_alice_bob)"
  let ?partial = "snd (open_ws ref_json 3 (Some ''carol'') [] st_alice_closing_last)"
  have c: "set_add 3 (clients st_alice_bob) = [1, 2, 3]"
    "set_add (assigned_username (Some ''carol'') []) (online_clients st_alice_bob) =
       [''alice'', ''bob'', ''carol'']"
    "length (written st_alice_bob) = 0" "closed st_alice_bob = {}"
    by (simp_all add: st_alice_bob_def set_add_def assigned_username_def)
  have c': "set_add 3 (clients st_alice_closing_last) = [2, 1, 3]"
    "set_add (assigned_username (Some ''carol'') []) (online_clients st_alice_closing_last) =
       [''alice'', ''bob'', ''carol'']"
    "length (written st_alice_closing_last) = 0" "closed st_alice_closing_last = {1}"
    by (simp_all add: st_alice_closing_last_def st_alice_bob_def set_add_def assigned_username_def)
  note t = open_broadcasts_updated_roster[where J = ref_json and argument = "Some ''carol''"
      and uuid = "[]" and self = 3 and st = st_alice_bob, unfolded Let_def c]
  note t' = open_broadcasts_updated_roster[where J = ref_json and argument = "Some ''carol''"
      and uuid = "[]" and self = 3 and st = st_alice_closing_last, unfolded Let_def c']
  from t have oc: "online_clients ?after = [''alice'', ''bob'', ''carol'']"
    by (rule conjunct1)
  from t have cl: "clients ?after = [1, 2, 3]"
    by (elim conjE)
  from t have "\<forall>client \<in> set (clients ?after).
      (client, dumps ref_json (clients_envelope (online_clients ?after))) \<in> set (written ?after)"
    by (elim conjE) simp
  then have m: "(3, roster_payload) \<in> set (written ?after)"
    unfolding oc cl ref_roster by simp
  from t have "take (length (takeWhile (\<lambda>client. client \<notin> {}) (clients ?after)))
        (drop 0 (written ?after)) =
      map (\<lambda>client. (client, dumps ref_json (clients_envelope (online_clients ?after))))
        (takeWhile (\<lambda>client. client \<notin> {}) (clients ?after))"
    by (elim conjE)
  then have tk: "take 3 (written ?after) =
      [(1, roster_payload), (2, roster_payload), (3, roster_payload)]"
    unfolding oc cl ref_roster by (simp add: numeral_3_eq_3)
  from t' have oc': "online_clients ?partial = [''alice'', ''bob'', ''carol'']"
    by (rule conjunct1)
  from t' have cl': "clients ?partial = [2, 1, 3]"
    by (elim conjE)
  from t' have "take (length (takeWhile (\<lambda>client. client \<notin> {1}) (clients ?partial)))
        (drop 0 (written ?partial)) =
      map (\<lambda>client. (client, dumps ref_json (clients_envelope (online_clients ?partial))))
        (takeWhile (\<lambda>client. client \<notin> {1}) (clients ?partial))"
    by (elim conjE)
  then have tk': "take 1 (written ?partial) = [(2, roster_payload)]"
    unfolding oc' cl' ref_roster by simp
  have h0: "set (clients ?after) \<inter> closed st_alice_bob = {}"
    by (simp add: c)
  show ?thesis
    using h0 oc cl tk m cl' tk' by (intro conjI)
qed

text \<open>
  Without the condition on the sockets the roster is not written to every registered
  connection. Carol opens connection 3 while alice's socket is closing and the loop
  visits alice first: the broadcast raises, and neither bob nor carol, whose sockets
  are fine, is written a roster.
\<close>

theorem roster_stops_at_closed_socket_counterexample:
  "clients (snd (open_ws ref_json 3 (Some ''carol'') [] st_alice_closing)) = [1, 2, 3]
   \<and> 2 \<notin> closed st_alice_closing \<and> 3 \<notin> closed st_alice_closing
   \<and> fst (open_ws ref_json 3 (Some ''carol'') [] st_alice_closing) = Raised WebSocketClosedError
   \<and> (2, roster_payload) \<notin> set (written (snd (open_ws ref_json 3 (Some ''carol'') [] st_alice_closing)))
   \<and> (3, roster_payload) \<notin> set (written (snd (open_ws ref_json 3 (Some ''carol'') [] st_alice_closing)))"
proof -
  have f: "set (set_add 3 (clients st_alice_closing)) \<inter> closed st_alice_closing \<noteq> {}"
    by (simp add: set_add_def st_alice_closing_def st_alice_bob_def)
  show ?thesis
    unfolding open_ws_fails[OF f]
    by (simp add: set_add_def st_alice_closing_def st_alice_bob_def)
qed

text \<open>
  C8, as the code has it. On an \<open>open\<close> at which no socket of the registry, the new
  connection's included, is closed, the frames written are the roster for every
  registered connection followed by one greeting envelope
  \<open>{"type": "welcome", "message": text}\<close> for the new connection, whose text holds the
  assigned name between the greeting and \<open>!\<close>; since the roster and the greeting are
  different payloads, the greeting is written exactly once, and to the new connection.
  On an \<open>open\<close> at which a socket of the registry is closed, the roster broadcast
  raises before the greeting is reached, and no greeting is written.
\<close>

theorem open_sends_one_greeting:
  "let name = assigned_username argument uuid;
       after = snd (open_ws J self argument uuid st);
       roster = dumps J (clients_envelope (online_clients after));
       greeting_payload = dumps J (JDict [(''type'', JStr ''welcome''),
                             (''message'', JStr (greeting @ name @ ''!''))]);
       frames = drop (length (written st)) (written after)
   in clients after = set_add self (clients st)
    \<and> (set (clients after) \<inter> closed st = {} \<longrightarrow>
         fst (open_ws J self argument uuid st) = Returned
         \<and> frames = map (\<lambda>client. (client, roster)) (clients after) @ [(self, greeting_payload)]
         \<and> (roster \<noteq> greeting_payload \<longrightarrow>
              filter (\<lambda>(client, payload). payload = greeting_payload) frames =
                [(self, greeting_payload)]))
    \<and> (set (clients after) \<inter> closed st \<noteq> {} \<longrightarrow>
         fst (open_ws J self argument uuid st) = Raised WebSocketClosedError
         \<and> frames = map (\<lambda>client. (client, roster))
                      (takeWhile (\<lambda>client. client \<notin> closed st) (clients after))
         \<and> (roster \<noteq> greeting_payload \<longrightarrow>
              filter (\<lambda>(client, payload). payload = greeting_payload) frames = []))"
proof (cases "set (set_add self (clients st)) \<inter> closed st = {}")
  case True
  then have ok: "set (clients st) \<inter> closed st = {}" "self \<notin> closed st"
    by (auto simp: set_set_add)
  show ?thesis
    using True
    by (simp add: open_ws_ok[OF ok] Let_def welcome_envelope_def filter_empty_conv)
next
  case False
  then show ?thesis
    by (simp add: open_ws_fails[OF False] Let_def filter_empty_conv)
qed

text \<open>
  Carol opens connection 3 next to alice and bob: three rosters, then the one greeting,
  written to her. When alice's socket is closing and the loop visits bob, alice, carol,
  bob is written the roster and nobody a greeting.
\<close>

theorem open_sends_one_greeting_witness:
  "set (clients (snd (open_ws ref_json 3 (Some ''carol'') [] st_alice_bob))) \<inter> closed st_alice_bob = {}
   \<and> roster_payload \<noteq> carol_greeting_payload
   \<and> fst (open_ws ref_json 3 (Some ''carol'') [] st_alice_bob) = Returned
   \<and> written (snd (open_ws ref_json 3 (Some ''carol'') [] st_alice_bob)) =
       [(1, roster_payload), (2, roster_payload), (3, roster_payload), (3, carol_greeting_payload)]
   \<and> filter (\<lambda>(client, payload). payload = carol_greeting_payload)
        (written (snd (open_ws ref_json 3 (Some ''carol'') [] st_alice_bob))) =
       [(3, carol_greeting_payload)]
   \<and> set (clients (snd (open_ws ref_json 3 (Some ''carol'') [] st_alice_closing_last))) \<inter>
       closed st_alice_closing_last \<noteq> {}
   \<and> fst (open_ws ref_json 3 (Some ''carol'') [] st_alice_closing_last) = Raised WebSocketClosedError
   \<and> written (snd (open_ws ref_json 3 (Some ''carol'') [] st_alice_closing_last)) =
       [(2, roster_payload)]
   \<and> filter (\<lambda>(client, payload). payload = carol_greeting_payload)
        (written (snd (open_ws ref_json 3 (Some ''carol'') [] st_alice_closing_last))) = []"
proof -
  let ?after = "snd (open_ws ref_json 3 (Some ''carol'') [] st_alice_bob)"
  let ?partial = "snd (open_ws ref_json 3 (Some ''carol'') [] st_alice_closing_last)"
  have c: "set_add 3 (clients st_alice_bob) = [1, 2, 3]"
    "assigned_username (Some ''carol'') [] = ''carol''"
    "written st_alice_bob = []" "closed st_alice_bob = {}"
    by (simp_all add: st_alice_bob_def set_add_def assigned_username_def)
  have c': "set_add 3 (clients st_alice_closing_last) = [2, 1, 3]"
    "written st_alice_closing_last = []" "closed st_alice_closing_last = {1}"
    by (simp_all add: st_alice_closing_last_def st_alice_bob_def set_add_def)
  have oc: "online_clients ?after = [''alice'', ''bob'', ''carol'']"
    using open_ws_online_clients[of ref_json 3 "Some ''carol''" "[]" st_alice_bob]
    by (simp add: set_add_def assigned_username_def st_alice_bob_def)
  have oc': "online_clients ?partial = [''alice'', ''bob'', ''carol'']"
    using open_ws_online_clients[of ref_json 3 "Some ''carol''" "[]" st_alice_closing_last]
    by (simp add: set_add_def assigned_username_def st_alice_closing_last_def st_alice_bob_def)
  note t = open_sends_one_greeting[where J = ref_json and argument = "Some ''carol''"
      and uuid = "[]" and self = 3 and st = st_alice_bob,
      unfolded Let_def c oc ref_roster ref_greeting]
  note t' = open_sends_one_greeting[where J = ref_json and argument = "Some ''carol''"
      and uuid = "[]" and self = 3 and st = st_alice_closing_last,
      unfolded Let_def c c' oc' ref_roster ref_greeting]
  from t have cl: "clients ?after = [1, 2, 3]"
    by (rule conjunct1)
  from t' have cl': "clients ?partial = [2, 1, 3]"
    by (rule conjunct1)
  from t have r: "fst (open_ws ref_json 3 (Some ''carol'') [] st_alice_bob) = Returned"
    by (elim conjE) simp
  from t have w: "written ?after =
      [(1, roster_payload), (2, roster_payload), (3, roster_payload), (3, carol_greeting_payload)]"
    by (elim conjE) simp
  from t ref_payloads_differ
  have f: "filter (\<lambda>(client, payload). payload = carol_greeting_payload) (written ?after) =
      [(3, carol_greeting_payload)]"
    by (elim conjE) simp
  from t' have r': "fst (open_ws ref_json 3 (Some ''carol'') [] st_alice_closing_last) =
      Raised WebSocketClosedError"
    by (elim conjE) simp
  from t' have w': "written ?partial = [(2, roster_payload)]"
    by (elim conjE) simp
  from t' ref_payloads_differ
  have f': "filter (\<lambda>(client, payload). payload = carol_greeting_payload) (written ?partial) = []"
    by (elim conjE) simp
  have h0: "set (clients ?after) \<inter> closed st_alice_bob = {}"
    by (simp add: c)
  have h0': "set (clients ?partial) \<inter> closed st_alice_closing_last \<noteq> {}"
    by (simp add: c' cl')
  show ?thesis
    using h0 ref_payloads_differ r w f h0' r' w' f' by (intro conjI)
qed

text \<open>
  Without the condition on the sockets an \<open>open\<close> need not send a greeting. Carol opens
  connection 3 while alice's socket is closing and the loop visits alice first: \<open>open\<close>
  raises in the roster broadcast and carol, whose socket is fine, is written no frame at
  all.
\<close>

theorem no_greeting_after_failed_roster_counterexample:
  "3 \<notin> closed st_alice_closing
   \<and> fst (open_ws ref_json 3 (Some ''carol'') [] st_alice_closing) = Raised WebSocketClosedError
   \<and> written (snd (open_ws ref_json 3 (Some ''carol'') [] st_alice_closing)) = []"
proof -
  have f: "set (set_add 3 (clients st_alice_closing)) \<inter> closed st_alice_closing \<noteq> {}"
    by (simp add: set_add_def st_alice_closing_def st_alice_bob_def)
  show ?thesis
    unfolding open_ws_fails[OF f]
    by (simp add: set_add_def st_alice_closing_def st_alice_bob_def)
qed

subsection \<open>The listener on a payload that is not JSON\<close>

text \<open>
  C9. A message of type \<open>message\<close> whose data \<open>json.loads\<close> rejects ends the listener:
  \<open>start_redis_listener\<close> raises \<open>JSONDecodeError\<close> in the state in which the message
  arrived, whatever messages follow, so none of them is delivered.
\<close>

theorem invalid_payload_ends_listener:
  assumes "msg_type message = ''message''"
      and "loads J (msg_data message) = None"
      and "redis_listener J earlier st = (Returned, st')"
  shows "start_redis_listener J (earlier @ message # later) st = (Raised JSONDecodeError, st')"
  using assms by (simp add: start_redis_listener_def redis_listener_append)

text \<open>
  The text \<open>hello\<close>, published to the channel as it is, after the subscription notice and
  before a well-formed chat message: the listener raises and nothing is written.
\<close>

theorem invalid_payload_ends_listener_witness:
  "msg_type \<lparr>msg_type = ''message'', msg_data = ''hello''\<rparr> = ''message''
   \<and> loads ref_json (msg_data \<lparr>msg_type = ''message'', msg_data = ''hello''\<rparr>) = None
   \<and> redis_listener ref_json [\<lparr>msg_type = ''subscribe'', msg_data = ''1''\<rparr>] st_alice_bob =
       (Returned, st_alice_bob)
   \<and> start_redis_listener ref_json
        ([\<lparr>msg_type = ''subscribe'', msg_data = ''1''\<rparr>] @
         \<lparr>msg_type = ''message'', msg_data = ''hello''\<rparr> #
         [\<lparr>msg_type = ''message'', msg_data = hello_payload\<rparr>]) st_alice_bob =
       (Raised JSONDecodeError, st_alice_bob)"
proof -
  have h1: "msg_type \<lparr>msg_type = ''message'', msg_data = ''hello''\<rparr> = ''message''"
    by simp
  have h2: "loads ref_json (msg_data \<lparr>msg_type = ''message'', msg_data = ''hello''\<rparr>) = None"
    by code_simp
  have h3: "redis_listener ref_json [\<lparr>msg_type = ''subscribe'', msg_data = ''1''\<rparr>] st_alice_bob =
              (Returned, st_alice_bob)"
    by simp
  show ?thesis
    using invalid_payload_ends_listener[OF h1 h2 h3] h1 h2 h3 by blast
qed

subsection \<open>The origin check\<close>

text \<open>
  C10. The origin check accepts every connection: \<open>check_origin\<close> returns \<open>True\<close> for
  every handler and every origin string.
\<close>

theorem check_origin_accepts_all: "check_origin self origin = True"
  by (simp add: check_origin_def)

end
